theory Spec2Isabelle
  imports Main
begin

section \<open>Python strings\<close>

text \<open>
  A Python \<open>str\<close> is a sequence of Unicode code points; it is modelled as the list of
  these code points. \<open>u\<close> turns an ASCII literal into such a list.
\<close>

type_synonym ustr = "nat list"

definition u :: "string \<Rightarrow> ustr" where
  "u s = map of_char s"

text \<open>
  The character tables of Unicode are not part of the repository. What the code reads
  from them beyond ASCII is a parameter: which code points are decimal digits
  (\<open>\d\<close>, \<open>str.isdecimal\<close>), which are alphanumeric (\<open>\w\<close>, \<open>str.isalnum\<close>),
  and what \<open>str.lower\<close>, \<open>str.istitle\<close> and \<open>str.isupper\<close> give on a string that
  has a code point outside ASCII. On ASCII everything is written out.
\<close>

record ucd =
  uc_decimal :: "nat \<Rightarrow> bool"
  uc_alnum :: "nat \<Rightarrow> bool"
  uc_lower :: "ustr \<Rightarrow> ustr"
  uc_istitle :: "ustr \<Rightarrow> bool"
  uc_isupper :: "ustr \<Rightarrow> bool"

definition is_ascii :: "ustr \<Rightarrow> bool" where
  "is_ascii s = list_all (\<lambda>c. c < 128) s"

definition ascii_upper_char :: "nat \<Rightarrow> bool" where
  "ascii_upper_char c = (65 \<le> c \<and> c \<le> 90)"

definition ascii_lower_char :: "nat \<Rightarrow> bool" where
  "ascii_lower_char c = (97 \<le> c \<and> c \<le> 122)"

definition ascii_tolower :: "nat \<Rightarrow> nat" where
  "ascii_tolower c = (if ascii_upper_char c then c + 32 else c)"

text \<open>
  The whitespace of \<open>str.isspace\<close>, \<open>str.strip()\<close> and the pattern \<open>\s\<close>: the
  same finite set for all three.
\<close>

definition is_space :: "nat \<Rightarrow> bool" where
  "is_space c = ((9 \<le> c \<and> c \<le> 13) \<or> (28 \<le> c \<and> c \<le> 32) \<or> c = 133 \<or> c = 160
     \<or> c = 5760 \<or> (8192 \<le> c \<and> c \<le> 8202) \<or> c = 8232 \<or> c = 8233 \<or> c = 8239
     \<or> c = 8287 \<or> c = 12288)"

definition is_digit :: "ucd \<Rightarrow> nat \<Rightarrow> bool" where
  "is_digit U c = (if c < 128 then 48 \<le> c \<and> c \<le> 57 else uc_decimal U c)"

definition is_word :: "ucd \<Rightarrow> nat \<Rightarrow> bool" where
  "is_word U c =
     (if c < 128
      then (48 \<le> c \<and> c \<le> 57) \<or> ascii_upper_char c \<or> ascii_lower_char c \<or> c = 95
      else uc_alnum U c)"

text \<open>\<open>str.lower()\<close>.\<close>

definition lower :: "ucd \<Rightarrow> ustr \<Rightarrow> ustr" where
  "lower U s = (if is_ascii s then map ascii_tolower s else uc_lower U s)"

text \<open>\<open>str.strip()\<close> and \<open>str.strip(chars)\<close>.\<close>

definition strip :: "ustr \<Rightarrow> ustr" where
  "strip s = rev (dropWhile is_space (rev (dropWhile is_space s)))"

definition strip_chars :: "ustr \<Rightarrow> ustr \<Rightarrow> ustr" where
  "strip_chars cs s =
     rev (dropWhile (\<lambda>c. c \<in> set cs) (rev (dropWhile (\<lambda>c. c \<in> set cs) s)))"

text \<open>\<open>s.startswith(p)\<close> and \<open>p in s\<close>.\<close>

fun startswith :: "ustr \<Rightarrow> ustr \<Rightarrow> bool" where
  "startswith s [] = True"
| "startswith [] (p # ps) = False"
| "startswith (c # cs) (p # ps) = (c = p \<and> startswith cs ps)"

fun str_in :: "ustr \<Rightarrow> ustr \<Rightarrow> bool" where
  "str_in p [] = (p = [])"
| "str_in p (c # cs) = (startswith (c # cs) p \<or> str_in p cs)"

text \<open>
  \<open>s.replace(old, new)\<close> for a non-empty \<open>old\<close>, the only way the code calls it: the
  occurrences are replaced from the left, without overlap.
\<close>

function replace :: "ustr \<Rightarrow> ustr \<Rightarrow> ustr \<Rightarrow> ustr" where
  "replace old new [] = []"
| "replace old new (c # cs) =
     (if old \<noteq> [] \<and> startswith (c # cs) old
      then new @ replace old new (drop (length old - 1) cs)
      else c # replace old new cs)"
  by pat_completeness auto
termination
  by (relation "measure (\<lambda>(old, new, s). length s)") auto

text \<open>\<open>str(n)\<close> for a non-negative integer.\<close>

function str_nat :: "nat \<Rightarrow> ustr" where
  "str_nat n = (if n < 10 then [48 + n] else str_nat (n div 10) @ [48 + n mod 10])"
  by pat_completeness auto
termination
  by (relation "measure id") auto

section \<open>Regular expressions\<close>

text \<open>
  The patterns of the code are kept as patterns. \<open>rx\<close> has the constructs they use;
  \<open>rxm\<close> is a backtracking matcher that lists the ways a pattern can match at a
  position in the order in which Python's \<open>re\<close> tries them (the first alternative
  first, a greedy repetition longest first), so that the head of the list is the match
  \<open>re\<close> reports.
\<close>

datatype citem = CDigit | CSpace | CWord | CChar nat | CRange nat nat

datatype rx =
    Eps
  | Lit nat
  | Dot
  | CSet bool "citem list"
  | WordB
  | Bol
  | Eol
  | Seq rx rx
  | Alt rx rx
  | Rep nat "nat option" bool rx

text \<open>
  Matching a pattern letter under \<open>re.IGNORECASE\<close>. Beside the two cases of an ASCII
  letter, \<open>re\<close> lets U+0130 and U+0131 match \<open>i\<close>, U+212A match \<open>k\<close> and U+017F
  match \<open>s\<close>; the other pattern characters of the code have no case.
\<close>

definition ci_match :: "nat \<Rightarrow> nat \<Rightarrow> bool" where
  "ci_match l c =
     (if c < 128 then l < 128 \<and> ascii_tolower c = ascii_tolower l
      else c = l \<or> (ascii_tolower l = 105 \<and> (c = 304 \<or> c = 305))
         \<or> (ascii_tolower l = 107 \<and> c = 8490) \<or> (ascii_tolower l = 115 \<and> c = 383))"

fun item_match :: "ucd \<Rightarrow> bool \<Rightarrow> citem \<Rightarrow> nat \<Rightarrow> bool" where
  "item_match U ic CDigit c = is_digit U c"
| "item_match U ic CSpace c = is_space c"
| "item_match U ic CWord c = is_word U c"
| "item_match U ic (CChar l) c = (if ic then ci_match l c else c = l)"
| "item_match U ic (CRange lo hi) c =
     (if ic then list_ex (\<lambda>l. ci_match l c) [lo..<Suc hi] else lo \<le> c \<and> c \<le> hi)"

text \<open>
  A position in the subject: the character before it (none at the start) and the text
  from it on.
\<close>

type_synonym mstate = "nat option \<times> ustr"

definition at_boundary :: "ucd \<Rightarrow> mstate \<Rightarrow> bool" where
  "at_boundary U st =
     ((case fst st of None \<Rightarrow> False | Some c \<Rightarrow> is_word U c)
      \<noteq> (case snd st of [] \<Rightarrow> False | c # cs \<Rightarrow> is_word U c))"

fun rx_size :: "rx \<Rightarrow> nat" where
  "rx_size (Seq a b) = Suc (rx_size a + rx_size b)"
| "rx_size (Alt a b) = Suc (rx_size a + rx_size b)"
| "rx_size (Rep lo hi g r) = Suc (rx_size r)"
| "rx_size r = 0"

text \<open>
  \<open>Rep lo hi g r\<close> is \<open>r{lo,hi}\<close> (\<open>hi = None\<close>: no upper bound), greedy when \<open>g\<close>.
  Every repeated pattern of the code consumes a character each time round; an
  iteration that consumes nothing is not followed.
\<close>

function rxm :: "ucd \<Rightarrow> bool \<Rightarrow> rx \<Rightarrow> mstate \<Rightarrow> mstate list" where
  "rxm U ic Eps st = [st]"
| "rxm U ic (Lit l) st =
     (case snd st of [] \<Rightarrow> []
      | c # cs \<Rightarrow> if (if ic then ci_match l c else c = l) then [(Some c, cs)] else [])"
| "rxm U ic Dot st =
     (case snd st of [] \<Rightarrow> [] | c # cs \<Rightarrow> if c \<noteq> 10 then [(Some c, cs)] else [])"
| "rxm U ic (CSet neg items) st =
     (case snd st of [] \<Rightarrow> []
      | c # cs \<Rightarrow> if list_ex (\<lambda>i. item_match U ic i c) items \<noteq> neg then [(Some c, cs)] else [])"
| "rxm U ic WordB st = (if at_boundary U st then [st] else [])"
| "rxm U ic Bol st = (if fst st = None then [st] else [])"
| "rxm U ic Eol st = (if snd st = [] \<or> snd st = [10] then [st] else [])"
| "rxm U ic (Seq a b) st = concat (map (\<lambda>st'. rxm U ic b st') (rxm U ic a st))"
| "rxm U ic (Alt a b) st = rxm U ic a st @ rxm U ic b st"
| "rxm U ic (Rep lo hi g r) st =
     (let stop = (if lo = 0 then [st] else []);
          more = (if hi = Some 0 then []
                  else concat (map (\<lambda>st'. if length (snd st') < length (snd st)
                                          then rxm U ic (Rep (lo - 1) (map_option (\<lambda>h. h - 1) hi) g r) st'
                                          else [])
                                 (rxm U ic r st)))
      in if g then more @ stop else stop @ more)"
  by pat_completeness auto
termination
  by (relation "inv_image (less_than <*lex*> less_than)
                  (\<lambda>(U, ic, r, st). (rx_size r, length (snd st)))") auto

declare rxm.simps(10) [simp del]

declare str_nat.simps [simp del]

lemma rxm_length: "st' \<in> set (rxm U ic r st) \<Longrightarrow> length (snd st') \<le> length (snd st)"
proof (induction U ic r st arbitrary: st' rule: rxm.induct)
  case (8 U ic a b st)
  from "8.prems" obtain x where x: "x \<in> set (rxm U ic a st)" "st' \<in> set (rxm U ic b x)"
    by auto
  from "8.IH"(1) [OF x(1)] "8.IH"(2) [OF x] show ?case
    by (rule le_trans [rotated])
next
  case (10 U ic lo hi g r st)
  let ?next = "Rep (lo - 1) (map_option (\<lambda>h. h - 1) hi) g r"
  from "10.prems" have "st' = st \<or> (hi \<noteq> Some 0 \<and> (\<exists>x \<in> set (rxm U ic r st).
      length (snd x) < length (snd st) \<and> st' \<in> set (rxm U ic ?next x)))"
    by (subst (asm) rxm.simps(10)) (auto simp: Let_def split: if_splits)
  then show ?case
  proof
    assume "st' = st"
    then show ?thesis by simp
  next
    assume "hi \<noteq> Some 0 \<and> (\<exists>x \<in> set (rxm U ic r st).
      length (snd x) < length (snd st) \<and> st' \<in> set (rxm U ic ?next x))"
    then obtain x where x: "hi \<noteq> Some 0" "x \<in> set (rxm U ic r st)"
      "length (snd x) < length (snd st)" "st' \<in> set (rxm U ic ?next x)"
      by blast
    have "length (snd st') \<le> length (snd x)"
      using "10.IH"(2) x by blast
    with x(3) show ?thesis by simp
  qed
qed (auto split: list.splits if_splits)

text \<open>
  One attempt at a position. After an empty match \<open>re\<close> asks the next match to
  advance: an empty match at the very position where the search resumes is passed over
  (\<open>must_advance\<close>).
\<close>

definition match_here :: "ucd \<Rightarrow> bool \<Rightarrow> rx \<Rightarrow> bool \<Rightarrow> mstate \<Rightarrow> mstate option" where
  "match_here U ic r adv st =
     List.find (\<lambda>st'. \<not> adv \<or> length (snd st') < length (snd st)) (rxm U ic r st)"

text \<open>
  The leftmost match from a position on: the text skipped before it, the matched text
  and the position after it.
\<close>

fun rx_search_from :: "ucd \<Rightarrow> bool \<Rightarrow> rx \<Rightarrow> bool \<Rightarrow> mstate \<Rightarrow> (ustr \<times> ustr \<times> mstate) option" where
  "rx_search_from U ic r adv (p, s) =
     (case match_here U ic r adv (p, s) of
        Some st' \<Rightarrow> Some ([], take (length s - length (snd st')) s, st')
      | None \<Rightarrow>
          (case s of [] \<Rightarrow> None
           | c # cs \<Rightarrow>
               (case rx_search_from U ic r False (Some c, cs) of
                  None \<Rightarrow> None
                | Some (sk, m, st') \<Rightarrow> Some (c # sk, m, st'))))"

lemma match_here_length:
  "match_here U ic r adv st = Some st' \<Longrightarrow>
     length (snd st') \<le> length (snd st) \<and> (adv \<longrightarrow> length (snd st') < length (snd st))"
  unfolding match_here_def
  by (auto simp: find_Some_iff dest!: nth_mem [THEN rxm_length])

lemma rx_search_from_length:
  "rx_search_from U ic r adv (p, s) = Some (sk, m, st') \<Longrightarrow>
     length sk + length m + length (snd st') = length s \<and> (adv \<longrightarrow> length (snd st') < length s)"
proof (induction s arbitrary: adv p sk)
  case Nil
  then show ?case
    by (auto split: option.splits dest: match_here_length)
next
  case (Cons c cs)
  show ?case
  proof (cases "match_here U ic r adv (p, c # cs)")
    case (Some st'')
    with Cons.prems match_here_length [OF Some] show ?thesis by auto
  next
    case None
    with Cons.prems obtain sk' where
      "rx_search_from U ic r False (Some c, cs) = Some (sk', m, st')" "sk = c # sk'"
      by (auto split: option.splits)
    with Cons.IH [of False "Some c" sk'] show ?thesis by auto
  qed
qed

text \<open>
  The successive matches of a pattern in a text, as \<open>re.sub\<close>, \<open>re.findall\<close> and
  \<open>re.split\<close> walk them: each with the text between the previous match and it, and at
  the end the text after the last match.
\<close>

function rx_scan :: "ucd \<Rightarrow> bool \<Rightarrow> rx \<Rightarrow> bool \<Rightarrow> mstate \<Rightarrow> (ustr \<times> ustr) list \<times> ustr" where
  "rx_scan U ic r adv (p, s) =
     (case rx_search_from U ic r adv (p, s) of
        None \<Rightarrow> ([], s)
      | Some (sk, m, st') \<Rightarrow>
          (case rx_scan U ic r (m = []) st' of (ms, rest) \<Rightarrow> ((sk, m) # ms, rest)))"
  by pat_completeness auto
termination
proof (relation "measure (\<lambda>(U, ic, r, adv, st). 2 * length (snd st) + (if adv then 0 else 1))",
    goal_cases)
  case 1
  show ?case by simp
next
  case (2 U ic r adv p s x sk y m st')
  from rx_search_from_length [of U ic r adv p s sk m st'] 2
  have "length sk + length m + length (snd st') = length s"
    and "adv \<longrightarrow> length (snd st') < length s"
    by auto
  then show ?case by (cases m) auto
qed

text \<open>\<open>re.search(pattern, s)\<close>: whether the pattern matches somewhere.\<close>

definition re_search :: "ucd \<Rightarrow> bool \<Rightarrow> rx \<Rightarrow> ustr \<Rightarrow> bool" where
  "re_search U ic r s = (rx_search_from U ic r False (None, s) \<noteq> None)"

text \<open>
  \<open>re.sub(pattern, repl, s)\<close> for a replacement without backslash, which is put in as
  it is, and \<open>re.findall(pattern, s)\<close> for a pattern without group (or whose one group
  is the whole pattern).
\<close>

definition re_sub :: "ucd \<Rightarrow> bool \<Rightarrow> rx \<Rightarrow> ustr \<Rightarrow> ustr \<Rightarrow> ustr" where
  "re_sub U ic r repl s =
     (case rx_scan U ic r False (None, s) of
        (ms, rest) \<Rightarrow> concat (map (\<lambda>(sk, m). sk @ repl) ms) @ rest)"

definition re_findall :: "ucd \<Rightarrow> bool \<Rightarrow> rx \<Rightarrow> ustr \<Rightarrow> ustr list" where
  "re_findall U ic r s = map snd (fst (rx_scan U ic r False (None, s)))"

text \<open>\<open>re.split(pattern, s, maxsplit=1)\<close> for a pattern without group.\<close>

definition re_split1 :: "ucd \<Rightarrow> bool \<Rightarrow> rx \<Rightarrow> ustr \<Rightarrow> ustr list" where
  "re_split1 U ic r s =
     (case rx_search_from U ic r False (None, s) of
        None \<Rightarrow> [s]
      | Some (sk, m, st') \<Rightarrow> [sk, snd st'])"

text \<open>Patterns are written with these abbreviations.\<close>

definition rx_str :: "ustr \<Rightarrow> rx" where
  "rx_str s = foldr (\<lambda>c r. Seq (Lit c) r) s Eps"

definition rx_seq :: "rx list \<Rightarrow> rx" where
  "rx_seq rs = foldr Seq rs Eps"

fun rx_alt :: "rx list \<Rightarrow> rx" where
  "rx_alt [] = CSet False []"
| "rx_alt [r] = r"
| "rx_alt (r # rs) = Alt r (rx_alt rs)"

definition rx_star :: "rx \<Rightarrow> rx" where
  "rx_star r = Rep 0 None True r"

definition rx_plus :: "rx \<Rightarrow> rx" where
  "rx_plus r = Rep 1 None True r"

definition rx_space :: rx where
  "rx_space = CSet False [CSpace]"

definition rx_digit :: rx where
  "rx_digit = CSet False [CDigit]"

section \<open>Duration and year cleaning\<close>

text \<open>\<open>ResumeParser._normalize_text\<close> (advanced_resume_parser.py).\<close>

definition normalize_text :: "ucd \<Rightarrow> ustr \<Rightarrow> ustr" where
  "normalize_text U s =
     (if s = [] then []
      else strip (re_sub U False (rx_plus rx_space) (u '' '')
             (replace [65279] (u '' '') (replace [239, 188] (u '' '') (replace [8203] (u '' '') s)))))"

text \<open>
  The three patterns of the cleaning:
  \<^verbatim>\<open>\s*(to|-|-|-)\s*\<close> (with the en dash U+2013 and the em dash U+2014 as second and
  third alternative), \<^verbatim>\<open>\b(current|present)\b\<close> and \<^verbatim>\<open>\b(?:19|20)\d{2}\b\<close>.
\<close>

definition connector_rx :: rx where
  "connector_rx =
     rx_seq [rx_star rx_space, rx_alt [rx_str (u ''to''), Lit 8211, Lit 8212, Lit 45],
             rx_star rx_space]"

definition current_rx :: rx where
  "current_rx = rx_seq [WordB, rx_alt [rx_str (u ''current''), rx_str (u ''present'')], WordB]"

definition year_rx :: rx where
  "year_rx =
     rx_seq [WordB, rx_alt [rx_str (u ''19''), rx_str (u ''20'')], Rep 2 (Some 2) True rx_digit,
             WordB]"

text \<open>The last step of both cleaning functions, from the years found.\<close>

definition join_years :: "ustr list \<Rightarrow> ustr" where
  "join_years years =
     (if length years \<ge> 2 then hd years @ u ''-'' @ last years
      else if length years = 1 then hd years
      else [])"

text \<open>
  \<open>ResumeParser._clean_years\<close> (advanced_resume_parser.py). \<open>now_year\<close> is
  \<open>datetime.now().year\<close>.
\<close>

definition clean_years :: "ucd \<Rightarrow> nat \<Rightarrow> ustr \<Rightarrow> ustr" where
  "clean_years U now_year s =
     (if s = [] then []
      else
        let s1 = normalize_text U s;
            s2 = re_sub U True connector_rx (u ''-'') s1;
            s3 = re_sub U True current_rx (str_nat now_year) s2;
            years = re_findall U False year_rx s3
        in join_years years)"

text \<open>
  \<open>WordFormatter._clean_duration\<close> (word_formatter.py): the year put in for
  current/present is the constant \<open>'2025'\<close>, and the text is only stripped.
\<close>

definition clean_duration :: "ucd \<Rightarrow> ustr \<Rightarrow> ustr" where
  "clean_duration U duration =
     (if duration = [] then []
      else
        let d1 = strip duration;
            d2 = re_sub U True connector_rx (u ''-'') d1;
            current_year = u ''2025'';
            d3 = re_sub U True current_rx current_year d2;
            years = re_findall U False year_rx d3
        in join_years years)"

section \<open>Section headers\<close>

text \<open>\<open>ResumeParser._is_section_header\<close> (advanced_resume_parser.py).\<close>

definition section_keywords :: "ustr list" where
  "section_keywords =
     [u ''experience'', u ''education'', u ''skills'', u ''summary'', u ''objective'',
      u ''projects'', u ''certifications'', u ''awards'', u ''languages'', u ''profile'',
      u ''work history'', u ''employment'', u ''qualifications'', u ''achievements'']"

definition is_section_header :: "ucd \<Rightarrow> ustr \<Rightarrow> bool" where
  "is_section_header U line =
     (if length line > 50 then False
      else
        let line_lower = strip (lower U line)
        in list_ex (\<lambda>keyword. keyword = line_lower \<or> startswith line_lower keyword)
             section_keywords)"

section \<open>Python values and dictionaries\<close>

text \<open>
  The values the code keeps in its dictionaries, and the truth value Python gives them
  in \<open>if x\<close> and \<open>not x\<close>. A dictionary is the list of its items in insertion
  order, with distinct keys.
\<close>

datatype pyval =
    PNone
  | PStr ustr
  | PInt int
  | PBool bool
  | PList "pyval list"
  | PDict "(ustr \<times> pyval) list"

type_synonym pydict = "(ustr \<times> pyval) list"

fun truthy :: "pyval \<Rightarrow> bool" where
  "truthy PNone = False"
| "truthy (PStr s) = (s \<noteq> [])"
| "truthy (PInt n) = (n \<noteq> 0)"
| "truthy (PBool b) = b"
| "truthy (PList xs) = (xs \<noteq> [])"
| "truthy (PDict d) = (d \<noteq> [])"

datatype py_error =
    ValueError ustr
  | KeyError ustr
  | TypeError
  | AttributeError
  | IndexError
  | LibraryError

text \<open>\<open>d.get(k)\<close>, \<open>d.get(k, default)\<close>, \<open>d[k]\<close> and \<open>d[k] = v\<close>.\<close>

definition dict_get :: "pydict \<Rightarrow> ustr \<Rightarrow> pyval" where
  "dict_get d k = (case map_of d k of None \<Rightarrow> PNone | Some v \<Rightarrow> v)"

definition dict_get_default :: "pydict \<Rightarrow> ustr \<Rightarrow> pyval \<Rightarrow> pyval" where
  "dict_get_default d k dflt = (case map_of d k of None \<Rightarrow> dflt | Some v \<Rightarrow> v)"

definition dict_index :: "pydict \<Rightarrow> ustr \<Rightarrow> py_error + pyval" where
  "dict_index d k = (case map_of d k of None \<Rightarrow> Inl (KeyError k) | Some v \<Rightarrow> Inr v)"

fun dict_set :: "pydict \<Rightarrow> ustr \<Rightarrow> pyval \<Rightarrow> pydict" where
  "dict_set [] k v = [(k, v)]"
| "dict_set ((k', v') # d) k v = (if k' = k then (k, v) # d else (k', v') # dict_set d k v)"

section \<open>The formatting operation and its precondition\<close>

text \<open>
  \<open>IntelligentFormatter.__init__\<close> (intelligent_formatter.py): the object it builds,
  or the \<open>ValueError\<close> it raises.
\<close>

record intelligent_formatter =
  resume_data :: pydict
  template_analysis :: pydict
  output_path :: ustr
  template_path :: pyval
  template_type :: pyval

definition intelligent_formatter_init ::
  "pydict \<Rightarrow> pydict \<Rightarrow> ustr \<Rightarrow> py_error + intelligent_formatter" where
  "intelligent_formatter_init rd ta out =
     (let tpath = dict_get ta (u ''template_path'');
          ttype = dict_get ta (u ''template_type'')
      in if \<not> truthy tpath
         then Inl (ValueError
                (u ''Template path not found in analysis. Please re-upload the template.''))
         else if \<not> truthy ttype
         then Inl (ValueError
                (u ''Template type not found in analysis. Please re-upload the template.''))
         else Inr \<lparr>resume_data = rd, template_analysis = ta, output_path = out,
                    template_path = tpath, template_type = ttype\<rparr>)"

text \<open>
  \<open>format_resume_intelligent\<close>: the constructor, then \<open>format()\<close>. Documents are
  opened, changed and saved by \<open>format()\<close> only; it is the parameter \<open>fmt\<close>, a
  function on the state \<open>w\<close> of the files, and it returns a boolean (it catches what
  is raised inside).
\<close>

definition format_resume_intelligent ::
  "(intelligent_formatter \<Rightarrow> 'w \<Rightarrow> bool \<times> 'w) \<Rightarrow> pydict \<Rightarrow> pydict \<Rightarrow> ustr \<Rightarrow> 'w
     \<Rightarrow> (py_error + bool) \<times> 'w" where
  "format_resume_intelligent fmt rd ta out w =
     (case intelligent_formatter_init rd ta out of
        Inl e \<Rightarrow> (Inl e, w)
      | Inr f \<Rightarrow> (case fmt f w of (b, w') \<Rightarrow> (Inr b, w')))"

text \<open>A key of the profile is missing or empty: absent, \<open>None\<close> or the empty string.\<close>

definition missing_or_empty :: "pydict \<Rightarrow> ustr \<Rightarrow> bool" where
  "missing_or_empty d k =
     (map_of d k = None \<or> map_of d k = Some PNone \<or> map_of d k = Some (PStr []))"

definition is_value_error :: "py_error + 'a \<Rightarrow> bool" where
  "is_value_error r = (case r of Inl (ValueError m) \<Rightarrow> True | _ \<Rightarrow> False)"

section \<open>Word documents\<close>

text \<open>
  The document model of the python-docx library, as far as the formatter reads and
  writes it: a paragraph is the list of the texts of its runs and its text is their
  concatenation; a cell is a list of paragraphs and its text joins theirs by newlines;
  a table has rows of cells and a number of grid columns, which a new row gets as its
  number of cells; a document has body paragraphs, tables, and sections with header and
  footer paragraphs.
\<close>

type_synonym para = "ustr list"

type_synonym cell = "para list"

definition para_text :: "para \<Rightarrow> ustr" where
  "para_text p = concat p"

fun join :: "ustr \<Rightarrow> ustr list \<Rightarrow> ustr" where
  "join sep [] = []"
| "join sep [x] = x"
| "join sep (x # y # ys) = x @ sep @ join sep (y # ys)"

definition cell_text :: "cell \<Rightarrow> ustr" where
  "cell_text c = join [10] (map para_text c)"

record table =
  rows :: "cell list list"
  ncols :: nat

record document =
  paragraphs :: "para list"
  tables :: "table list"
  sections :: "(para list \<times> para list) list"

text \<open>
  What the formatter takes from outside the repository: the expansion by \<open>re\<close> of a
  replacement text that has a backslash (an error, or a function of the matched
  text), \<open>str(x)\<close> of a value, the numeric value of a decimal digit beyond ASCII, and
  the Unicode tables.
\<close>

record pylib =
  tables_of :: ucd
  re_template :: "ustr \<Rightarrow> py_error + (ustr \<Rightarrow> ustr)"
  py_str :: "pyval \<Rightarrow> ustr"
  digit_value :: "nat \<Rightarrow> nat"

definition ebind :: "'e + 'a \<Rightarrow> ('a \<Rightarrow> 'e + 'b) \<Rightarrow> 'e + 'b" where
  "ebind m f = (case m of Inl e \<Rightarrow> Inl e | Inr x \<Rightarrow> f x)"

section \<open>Literal placeholders\<close>

text \<open>\<open>WordFormatter._create_replacement_map\<close> (word_formatter.py).\<close>

definition name_tokens :: "ustr list" where
  "name_tokens =
     [u ''[NAME]'', u ''[CANDIDATE NAME]'', u ''<CANDIDATE NAME>'',
      u ''<Candidate'' @ [39] @ u ''s full name>'', u ''<Candidate Name>'', u ''<Name>'',
      u ''Your Name'', u ''CANDIDATE NAME'']"

definition email_tokens :: "ustr list" where
  "email_tokens =
     [u ''[EMAIL]'', u ''[Email]'', u ''<EMAIL>'', u ''<Email>'', u ''<Candidate Email>'']"

definition phone_tokens :: "ustr list" where
  "phone_tokens =
     [u ''[PHONE]'', u ''[Phone]'', u ''<PHONE>'', u ''<Phone>'', u ''<Candidate Phone>'']"

definition address_tokens :: "ustr list" where
  "address_tokens =
     [u ''[ADDRESS]'', u ''[Address]'', u ''<ADDRESS>'', u ''<Address>'', u ''Your Address'']"

definition linkedin_tokens :: "ustr list" where
  "linkedin_tokens =
     [u ''[LINKEDIN]'', u ''[LinkedIn]'', u ''<LINKEDIN>'', u ''<LinkedIn>'',
      u ''linkedin.com/in/username'']"

definition dob_tokens :: "ustr list" where
  "dob_tokens = [u ''[DOB]'', u ''[Date of Birth]'', u ''<DOB>'']"

text \<open>
  One \<open>if self.resume_data.get(field):\<close> block: each token of the field is set to
  \<open>self.resume_data[field]\<close>, in the order of the source.
\<close>

definition register_tokens :: "pydict \<Rightarrow> ustr \<Rightarrow> ustr list \<Rightarrow> pydict \<Rightarrow> pydict" where
  "register_tokens rd field tokens replacements =
     (if truthy (dict_get rd field)
      then foldl (\<lambda>r k. dict_set r k (dict_get rd field)) replacements tokens
      else replacements)"

definition create_replacement_map :: "pydict \<Rightarrow> pydict" where
  "create_replacement_map rd =
     register_tokens rd (u ''dob'') dob_tokens
       (register_tokens rd (u ''linkedin'') linkedin_tokens
         (register_tokens rd (u ''address'') address_tokens
           (register_tokens rd (u ''phone'') phone_tokens
             (register_tokens rd (u ''email'') email_tokens
               (register_tokens rd (u ''name'') name_tokens [])))))"

text \<open>\<open>WordFormatter._text_contains\<close>.\<close>

definition text_contains :: "ucd \<Rightarrow> ustr \<Rightarrow> ustr \<Rightarrow> bool" where
  "text_contains U text search_term = str_in (lower U search_term) (lower U text)"

text \<open>
  \<open>pattern.sub(replacement, text)\<close> for
  \<open>pattern = re.compile(re.escape(search_term), re.IGNORECASE)\<close>. A replacement that
  is not a string is a \<open>TypeError\<close>; one without backslash is put in as it is.
\<close>

definition sub_escaped :: "pylib \<Rightarrow> ustr \<Rightarrow> pyval \<Rightarrow> ustr \<Rightarrow> py_error + ustr" where
  "sub_escaped L search_term replacement text =
     (case replacement of
        PStr repl \<Rightarrow>
          ebind (if 92 \<in> set repl then re_template L repl else Inr (\<lambda>m. repl))
            (\<lambda>expand.
               case rx_scan (tables_of L) True (rx_str search_term) False (None, text) of
                 (ms, rest) \<Rightarrow> Inr (concat (map (\<lambda>(sk, m). sk @ expand m) ms) @ rest))
      | _ \<Rightarrow> Inl TypeError)"

text \<open>
  \<open>WordFormatter._replace_in_paragraph\<close>: the paragraph after the call and the
  number it returns.
\<close>

fun replace_in_runs ::
  "pylib \<Rightarrow> ustr \<Rightarrow> pyval \<Rightarrow> ustr list \<Rightarrow> py_error + (ustr list \<times> nat)" where
  "replace_in_runs L search_term replacement [] = Inr ([], 0)"
| "replace_in_runs L search_term replacement (run # runs) =
     (if text_contains (tables_of L) run search_term
      then ebind (sub_escaped L search_term replacement run)
             (\<lambda>run'. ebind (replace_in_runs L search_term replacement runs)
                (\<lambda>(runs', replaced). Inr (run' # runs', replaced + 1)))
      else ebind (replace_in_runs L search_term replacement runs)
             (\<lambda>(runs', replaced). Inr (run # runs', replaced)))"

definition replace_in_paragraph ::
  "pylib \<Rightarrow> para \<Rightarrow> ustr \<Rightarrow> pyval \<Rightarrow> py_error + (para \<times> nat)" where
  "replace_in_paragraph L p search_term replacement =
     ebind (replace_in_runs L search_term replacement p)
       (\<lambda>(p1, replaced).
          if replaced = 0 \<and> text_contains (tables_of L) (para_text p1) search_term
          then
            (let full_text = para_text p1
             in ebind (sub_escaped L search_term replacement full_text)
                  (\<lambda>new_text.
                     if new_text \<noteq> full_text
                     then (case p1 of
                             [] \<Rightarrow> Inr ([new_text], 1)
                           | r # rs \<Rightarrow> Inr (new_text # map (\<lambda>r. []) rs, 1))
                     else Inr (p1, replaced)))
          else Inr (p1, replaced))"

text \<open>
  The loop \<open>for key, value in replacements.items()\<close> over one paragraph, as it stands
  in \<open>_format_docx_file\<close> for the body, the table cells, the headers and the footers:
  the paragraph after it and the sum of the numbers returned.
\<close>

fun replace_tokens ::
  "pylib \<Rightarrow> pydict \<Rightarrow> para \<Rightarrow> py_error + (para \<times> nat)" where
  "replace_tokens L [] p = Inr (p, 0)"
| "replace_tokens L ((key, value) # replacements) p =
     (if text_contains (tables_of L) (para_text p) key
      then ebind (replace_in_paragraph L p key value)
             (\<lambda>(p', count). ebind (replace_tokens L replacements p')
                (\<lambda>(p'', total). Inr (p'', count + total)))
      else replace_tokens L replacements p)"

definition field_entries :: "pydict \<Rightarrow> ustr \<Rightarrow> ustr list \<Rightarrow> pydict" where
  "field_entries rd field tokens =
     (if truthy (dict_get rd field) then map (\<lambda>k. (k, dict_get rd field)) tokens else [])"


section \<open>The skills table\<close>

text \<open>\<open>WordFormatter._is_skills_table\<close> (word_formatter.py).\<close>

definition skills_keywords :: "ustr list" where
  "skills_keywords = [u ''skill'', u ''skills'', u ''technology'', u ''competency'']"

definition years_keywords :: "ustr list" where
  "years_keywords = [u ''years'', u ''experience'', u ''years used'', u ''years of experience'']"

definition last_used_keywords :: "ustr list" where
  "last_used_keywords = [u ''last used'', u ''last'', u ''recent'', u ''most recent'']"

definition header_texts :: "ucd \<Rightarrow> table \<Rightarrow> ustr list" where
  "header_texts U t = map (\<lambda>c. lower U (strip (cell_text c))) (hd (rows t))"

definition any_keyword :: "ustr list \<Rightarrow> ustr list \<Rightarrow> bool" where
  "any_keyword kws hs = list_ex (\<lambda>h. list_ex (\<lambda>kw. str_in kw h) kws) hs"

definition is_skills_table :: "ucd \<Rightarrow> table \<Rightarrow> bool" where
  "is_skills_table U t =
     (if length (rows t) < 2 then False
      else
        let hs = header_texts U t;
            has_skill_col = any_keyword skills_keywords hs;
            has_years_col = any_keyword years_keywords hs;
            has_last_used_col = any_keyword last_used_keywords hs
        in has_skill_col \<and> (has_years_col \<or> has_last_used_col))"

text \<open>
  \<open>WordFormatter._extract_skills_with_details\<close>. The lists of the record are lists;
  another value there is outside the data model and is answered by \<open>TypeError\<close>.
  \<open>current_year\<close> is the constant 2025 of the source.
\<close>

definition list_of :: "pyval \<Rightarrow> py_error + pyval list" where
  "list_of v = (case v of PList xs \<Rightarrow> Inr xs | _ \<Rightarrow> Inl TypeError)"

definition str_of :: "pyval \<Rightarrow> py_error + ustr" where
  "str_of v = (case v of PStr s \<Rightarrow> Inr s | _ \<Rightarrow> Inl AttributeError)"

definition skill_name_of :: "pyval \<Rightarrow> py_error + ustr" where
  "skill_name_of skill =
     (case skill of
        PStr s \<Rightarrow> Inr s
      | PDict d \<Rightarrow> str_of (dict_get_default d (u ''name'') (PStr []))
      | _ \<Rightarrow> Inl AttributeError)"

text \<open>\<open>str(x)\<close>: a string is itself, another value is printed by the library.\<close>

definition str_py :: "pylib \<Rightarrow> pyval \<Rightarrow> ustr" where
  "str_py L v = (case v of PStr s \<Rightarrow> s | _ \<Rightarrow> py_str L v)"

definition year20_rx :: rx where
  "year20_rx = rx_seq [rx_str (u ''20''), Rep 2 (Some 2) True rx_digit]"

definition digit_of :: "pylib \<Rightarrow> nat \<Rightarrow> int" where
  "digit_of L c = (if c < 128 then int c - 48 else int (digit_value L c))"

definition int_of_str :: "pylib \<Rightarrow> ustr \<Rightarrow> int" where
  "int_of_str L s = foldl (\<lambda>n c. 10 * n + digit_of L c) 0 s"

definition str_int :: "int \<Rightarrow> ustr" where
  "str_int n = (if n < 0 then 45 # str_nat (nat (- n)) else str_nat (nat n))"

text \<open>The years and the last use that one experience entry gives, when it has years.\<close>

definition skill_years :: "pylib \<Rightarrow> pyval \<Rightarrow> ustr \<times> ustr" where
  "skill_years L exp =
     (let current_year = 2025;
          duration = (case exp of PDict d \<Rightarrow> dict_get_default d (u ''duration'') (PStr [])
                      | _ \<Rightarrow> PStr []);
          dtext = str_py L duration;
          year_matches = re_findall (tables_of L) False year20_rx dtext
      in if year_matches = [] then ([], [])
         else
           let start_year = int_of_str L (hd year_matches);
               end_year0 = (if length year_matches > 1 then int_of_str L (last year_matches)
                            else current_year);
               end_year = (if str_in (u ''present'') (lower (tables_of L) dtext)
                              \<or> str_in (u ''current'') (lower (tables_of L) dtext)
                           then current_year else end_year0);
               years_count = end_year - start_year
           in if years_count > 0
              then (str_int years_count @ u ''+ years'',
                    if end_year < current_year then str_int end_year else u ''Present'')
              else ([], []))"

text \<open>The search through the experience for a skill: the first entry that mentions it.\<close>

fun find_in_experience :: "pylib \<Rightarrow> ustr \<Rightarrow> pyval list \<Rightarrow> ustr \<times> ustr" where
  "find_in_experience L skill_name [] = ([], [])"
| "find_in_experience L skill_name (exp # experience) =
     (if str_in (lower (tables_of L) skill_name) (lower (tables_of L) (str_py L exp))
      then skill_years L exp
      else find_in_experience L skill_name experience)"

record skill_info =
  skill :: ustr
  years :: ustr
  last_used :: ustr

fun skills_details :: "pylib \<Rightarrow> pyval list \<Rightarrow> pyval list \<Rightarrow> py_error + skill_info list" where
  "skills_details L experience [] = Inr []"
| "skills_details L experience (sk # skills) =
     ebind (skill_name_of sk)
       (\<lambda>skill_name.
          case find_in_experience L skill_name experience of
            (years_exp, lastu) \<Rightarrow>
              ebind (skills_details L experience skills)
                (\<lambda>skills_list.
                   Inr (\<lparr>skill = skill_name,
                         years = (if years_exp = [] then u ''1+ years'' else years_exp),
                         last_used = (if lastu = [] then u ''Recent'' else lastu)\<rparr>
                        # skills_list)))"

definition extract_skills_with_details :: "pylib \<Rightarrow> pydict \<Rightarrow> py_error + skill_info list" where
  "extract_skills_with_details L rd =
     ebind (list_of (dict_get_default rd (u ''skills'') (PList [])))
       (\<lambda>skills.
          ebind (list_of (dict_get_default rd (u ''experience'') (PList [])))
            (\<lambda>experience. skills_details L experience (take 15 skills)))"

text \<open>
  \<open>WordFormatter._fill_skills_table\<close>: the number it returns and the table after the
  call. A new row has one cell with one empty paragraph for each grid column; setting
  the text of a cell leaves it one paragraph with one run.
\<close>

fun find_columns ::
  "ustr list \<Rightarrow> nat \<Rightarrow> nat option \<times> nat option \<times> nat option
     \<Rightarrow> nat option \<times> nat option \<times> nat option" where
  "find_columns [] idx cols = cols"
| "find_columns (header # hs) idx (skill_col, years_col, last_used_col) =
     find_columns hs (idx + 1)
       (if str_in (u ''skill'') header \<or> str_in (u ''technology'') header
        then (Some idx, years_col, last_used_col)
        else if str_in (u ''years'') header \<or> str_in (u ''experience'') header
        then (skill_col, Some idx, last_used_col)
        else if str_in (u ''last'') header \<or> str_in (u ''recent'') header
        then (skill_col, years_col, Some idx)
        else (skill_col, years_col, last_used_col))"

definition set_cell_text :: "cell list \<Rightarrow> nat option \<Rightarrow> ustr \<Rightarrow> py_error + cell list" where
  "set_cell_text cells col text =
     (case col of
        None \<Rightarrow> Inr cells
      | Some i \<Rightarrow> if i < length cells then Inr (cells[i := [[text]]]) else Inl IndexError)"

fun add_skill_rows ::
  "nat option \<times> nat option \<times> nat option \<Rightarrow> skill_info list \<Rightarrow> table
     \<Rightarrow> py_error + (nat \<times> table)" where
  "add_skill_rows cols [] t = Inr (0, t)"
| "add_skill_rows (skill_col, years_col, last_used_col) (info # infos) t =
     ebind (set_cell_text (replicate (ncols t) [[]]) skill_col (skill info))
       (\<lambda>r1. ebind (set_cell_text r1 years_col (years info))
          (\<lambda>r2. ebind (set_cell_text r2 last_used_col (last_used info))
             (\<lambda>r3. ebind (add_skill_rows (skill_col, years_col, last_used_col) infos
                            (t\<lparr>rows := rows t @ [r3]\<rparr>))
                (\<lambda>(filled_count, t'). Inr (filled_count + 1, t')))))"

definition fill_skills_table :: "pylib \<Rightarrow> pydict \<Rightarrow> table \<Rightarrow> py_error + (nat \<times> table)" where
  "fill_skills_table L rd t =
     (if length (rows t) < 2 then Inr (0, t)
      else
        case find_columns (header_texts (tables_of L) t) 0 (None, None, None) of
          (skill_col, years_col, last_used_col) \<Rightarrow>
            if skill_col = None then Inr (0, t)
            else
              ebind (extract_skills_with_details L rd)
                (\<lambda>skills_data.
                   if skills_data = [] then Inr (0, t)
                   else add_skill_rows (skill_col, years_col, last_used_col)
                          (take 15 skills_data) (t\<lparr>rows := [hd (rows t)]\<rparr>)))"

text \<open>
  The loop over the tables in \<open>_format_docx_file\<close>: a skills table is filled, in any
  other table the tokens are replaced in every paragraph of every cell. \<open>map_counting\<close>
  walks a list in order, stops at the first error and adds the counts up.
\<close>

fun map_counting :: "('a \<Rightarrow> py_error + ('a \<times> nat)) \<Rightarrow> 'a list \<Rightarrow> py_error + ('a list \<times> nat)" where
  "map_counting f [] = Inr ([], 0)"
| "map_counting f (x # xs) =
     ebind (f x) (\<lambda>(x', n). ebind (map_counting f xs) (\<lambda>(xs', m). Inr (x' # xs', n + m)))"

definition format_table :: "pylib \<Rightarrow> pydict \<Rightarrow> pydict \<Rightarrow> table \<Rightarrow> py_error + (table \<times> nat)" where
  "format_table L rd replacements t =
     (if is_skills_table (tables_of L) t
      then ebind (fill_skills_table L rd t) (\<lambda>(skills_filled, t'). Inr (t', skills_filled))
      else ebind (map_counting (map_counting (map_counting (replace_tokens L replacements)))
                    (rows t))
             (\<lambda>(rows', n). Inr (t\<lparr>rows := rows'\<rparr>, n)))"

text \<open>The loop over the headers and footers of the sections.\<close>

definition format_header_footer ::
  "pylib \<Rightarrow> pydict \<Rightarrow> para list \<times> para list \<Rightarrow> py_error + ((para list \<times> para list) \<times> nat)" where
  "format_header_footer L replacements sec =
     ebind (map_counting (replace_tokens L replacements) (fst sec))
       (\<lambda>(header, n). ebind (map_counting (replace_tokens L replacements) (snd sec))
          (\<lambda>(footer, m). Inr ((header, footer), n + m)))"


section \<open>The Word formatter\<close>

text \<open>
  \<open>WordFormatter\<close> (word_formatter.py). Its constructor checks nothing. What lies
  outside the literal placeholders is taken as it comes, as fields of \<open>docx_env\<close>:
  opening and saving a document and the conversion to PDF (python-docx and Word), and
  the methods of the formatter that the properties below do not depend on: the regex
  placeholder families applied to a body paragraph, \<open>_add_sections_content\<close> and
  \<open>_format_doc_file\<close>. \<open>'w\<close> is the state of the files.
\<close>

record word_formatter =
  wf_resume_data :: pydict
  wf_template_analysis :: pydict
  wf_output_path :: ustr
  wf_template_path :: pyval
  wf_template_type :: pyval

definition word_formatter_init :: "pydict \<Rightarrow> pydict \<Rightarrow> ustr \<Rightarrow> word_formatter" where
  "word_formatter_init rd ta out =
     \<lparr>wf_resume_data = rd, wf_template_analysis = ta, wf_output_path = out,
      wf_template_path = dict_get ta (u ''template_path''),
      wf_template_type = dict_get ta (u ''template_type'')\<rparr>"

record 'w docx_env =
  lib :: pylib
  open_document :: "ustr \<Rightarrow> 'w \<Rightarrow> py_error + document"
  save_document :: "ustr \<Rightarrow> document \<Rightarrow> 'w \<Rightarrow> py_error + 'w"
  convert_to_pdf :: "ustr \<Rightarrow> ustr \<Rightarrow> 'w \<Rightarrow> bool \<times> 'w"
  placeholder_patterns :: "pydict \<Rightarrow> para \<Rightarrow> py_error + (para \<times> nat)"
  add_sections_content :: "pydict \<Rightarrow> document \<Rightarrow> py_error + document"
  format_doc_file :: "word_formatter \<Rightarrow> 'w \<Rightarrow> (py_error + bool) \<times> 'w"

definition endswith :: "ustr \<Rightarrow> ustr \<Rightarrow> bool" where
  "endswith s suffix = startswith (rev s) (rev suffix)"

text \<open>\<open>len(x)\<close>, and the prints of \<open>_format_docx_file\<close> that can raise.\<close>

definition py_len :: "pyval \<Rightarrow> py_error + nat" where
  "py_len v =
     (case v of PStr s \<Rightarrow> Inr (length s) | PList xs \<Rightarrow> Inr (length xs)
      | PDict d \<Rightarrow> Inr (length d) | _ \<Rightarrow> Inl TypeError)"

definition print_resume_data :: "pydict \<Rightarrow> py_error + unit" where
  "print_resume_data rd =
     ebind (py_len (dict_get_default rd (u ''experience'') (PList [])))
       (\<lambda>n1. ebind (py_len (dict_get_default rd (u ''education'') (PList [])))
          (\<lambda>n2. ebind (py_len (dict_get_default rd (u ''skills'') (PList [])))
             (\<lambda>n3. case dict_get_default rd (u ''sections'') (PDict []) of
                      PDict d \<Rightarrow> Inr ()
                    | _ \<Rightarrow> Inl AttributeError)))"

text \<open>
  One round of the loop over the body paragraphs: a paragraph whose text is blank is
  passed over; in another the tokens are replaced, then the regex families are tried.
\<close>

definition format_body_paragraph ::
  "'w docx_env \<Rightarrow> pydict \<Rightarrow> pydict \<Rightarrow> para \<Rightarrow> py_error + (para \<times> nat)" where
  "format_body_paragraph E rd replacements p =
     (if strip (para_text p) = [] then Inr (p, 0)
      else ebind (replace_tokens (lib E) replacements p)
             (\<lambda>(p1, n). placeholder_patterns E rd p1))"

text \<open>\<open>_format_docx_file\<close> between opening the template and saving the result.\<close>

definition format_document :: "'w docx_env \<Rightarrow> pydict \<Rightarrow> document \<Rightarrow> py_error + document" where
  "format_document E rd doc =
     ebind (print_resume_data rd)
       (\<lambda>_. let replacements = create_replacement_map rd
            in ebind (map_counting (format_body_paragraph E rd replacements) (paragraphs doc))
                 (\<lambda>(ps, replaced_count).
                    ebind (map_counting (format_table (lib E) rd replacements) (tables doc))
                      (\<lambda>(ts, table_replaced).
                         ebind (map_counting (format_header_footer (lib E) replacements)
                                  (sections doc))
                           (\<lambda>(ss, header_footer_replaced).
                              add_sections_content E rd
                                (doc\<lparr>paragraphs := ps, tables := ts, sections := ss\<rparr>)))))"

definition format_docx_file ::
  "'w docx_env \<Rightarrow> word_formatter \<Rightarrow> ustr \<Rightarrow> 'w \<Rightarrow> (py_error + bool) \<times> 'w" where
  "format_docx_file E f path w =
     (case ebind (open_document E path w) (format_document E (wf_resume_data f)) of
        Inl e \<Rightarrow> (Inl e, w)
      | Inr doc \<Rightarrow>
          (let output_docx = replace (u ''.pdf'') (u ''.docx'') (wf_output_path f)
           in case save_document E output_docx doc w of
                Inl e \<Rightarrow> (Inl e, w)
              | Inr w1 \<Rightarrow>
                  if endswith (wf_output_path f) (u ''.pdf'')
                  then (Inr True, snd (convert_to_pdf E output_docx (wf_output_path f) w1))
                  else (Inr True, w1)))"

text \<open>
  \<open>WordFormatter.format\<close>. The three prints before the \<open>try\<close> raise to the caller:
  a template path that is not a string is a \<open>TypeError\<close> of \<open>os.path.basename\<close>, a
  record without the key \<open>name\<close> a \<open>KeyError\<close>. What is raised inside the \<open>try\<close>
  is caught and \<open>False\<close> is returned.
\<close>

definition word_formatter_format ::
  "'w docx_env \<Rightarrow> word_formatter \<Rightarrow> 'w \<Rightarrow> (py_error + bool) \<times> 'w" where
  "word_formatter_format E f w =
     (case wf_template_path f of
        PStr path \<Rightarrow>
          (case dict_index (wf_resume_data f) (u ''name'') of
             Inl e \<Rightarrow> (Inl e, w)
           | Inr name \<Rightarrow>
               (case (if endswith (lower (tables_of (lib E)) path) (u ''.doc'')
                      then format_doc_file E f w
                      else format_docx_file E f path w) of
                  (Inl e, w') \<Rightarrow> (Inr False, w')
                | (Inr b, w') \<Rightarrow> (Inr b, w')))
      | _ \<Rightarrow> (Inl TypeError, w))"

definition format_word_document ::
  "'w docx_env \<Rightarrow> pydict \<Rightarrow> pydict \<Rightarrow> ustr \<Rightarrow> 'w \<Rightarrow> (py_error + bool) \<times> 'w" where
  "format_word_document E rd ta out w = word_formatter_format E (word_formatter_init rd ta out) w"


section \<open>Examples\<close>

text \<open>
  A table with nothing beyond ASCII. It closes the statements of examples whose text
  is ASCII, where no table is consulted.
\<close>

definition ascii_ucd :: ucd where
  "ascii_ucd = \<lparr>uc_decimal = (\<lambda>c. False), uc_alnum = (\<lambda>c. False), uc_lower = (\<lambda>s. s),
                 uc_istitle = (\<lambda>s. False), uc_isupper = (\<lambda>s. False)\<rparr>"

text \<open>A library for the examples whose replacement texts have no backslash.\<close>

definition sample_lib :: pylib where
  "sample_lib = \<lparr>tables_of = ascii_ucd, re_template = (\<lambda>t. Inl LibraryError),
                  py_str = (\<lambda>v. []), digit_value = (\<lambda>c. 0)\<rparr>"

text \<open>A table cell with one paragraph of one run.\<close>

definition text_cell :: "ustr \<Rightarrow> cell" where
  "text_cell s = [[s]]"

section \<open>Properties\<close>

lemmas rx_abbrevs = rx_str_def rx_seq_def rx_star_def rx_plus_def rx_space_def rx_digit_def

lemmas char_defs = is_space_def is_word_def is_digit_def ci_match_def ascii_tolower_def
  ascii_upper_char_def ascii_lower_char_def is_ascii_def

lemmas re_defs = re_sub_def re_findall_def re_search_def re_split1_def match_here_def
  at_boundary_def rxm.simps(10)

lemmas clean_defs = normalize_text_def join_years_def connector_rx_def current_rx_def
  year_rx_def strip_def str_nat.simps

subsection \<open>Section headers\<close>

text \<open>
  C4. A line is a section header if and only if it has at most 50 characters and,
  lower-cased and stripped, equals or starts with one of the fourteen words of the
  vocabulary. "Education" and "Education Background" are headers; no line of 55
  characters is one, so a sentence of 55 characters with "education" inside is not.
\<close>

theorem is_section_header_iff:
  "(is_section_header U line \<longleftrightarrow>
      length line \<le> 50 \<and>
      (\<exists>w \<in> {u ''experience'', u ''education'', u ''skills'', u ''summary'', u ''objective'',
              u ''projects'', u ''certifications'', u ''awards'', u ''languages'', u ''profile'',
              u ''work history'', u ''employment'', u ''qualifications'', u ''achievements''}.
         strip (lower U line) = w \<or> startswith (strip (lower U line)) w))
   \<and> is_section_header U (u ''Education'')
   \<and> is_section_header U (u ''Education Background'')
   \<and> (length line = 55 \<longrightarrow> \<not> is_section_header U line)
   \<and> length (u ''She finished her education at a large state university.'') = 55
   \<and> str_in (u ''education'') (u ''She finished her education at a large state university.'')
   \<and> \<not> is_section_header U (u ''She finished her education at a large state university.'')"
proof -
  have iff: "is_section_header U line \<longleftrightarrow>
      length line \<le> 50 \<and>
      (\<exists>w \<in> {u ''experience'', u ''education'', u ''skills'', u ''summary'', u ''objective'',
              u ''projects'', u ''certifications'', u ''awards'', u ''languages'', u ''profile'',
              u ''work history'', u ''employment'', u ''qualifications'', u ''achievements''}.
         strip (lower U line) = w \<or> startswith (strip (lower U line)) w)"
    unfolding is_section_header_def section_keywords_def Let_def list_ex_iff
    by auto
  have e1: "is_section_header U (u ''Education'')"
    by (simp add: is_section_header_def section_keywords_def lower_def strip_def u_def char_defs)
  have e2: "is_section_header U (u ''Education Background'')"
    by (simp add: is_section_header_def section_keywords_def lower_def strip_def u_def char_defs)
  have long: "length line = 55 \<longrightarrow> \<not> is_section_header U line"
    by (simp add: is_section_header_def)
  have len: "length (u ''She finished her education at a large state university.'') = 55"
    by (simp add: u_def)
  have mid: "str_in (u ''education'') (u ''She finished her education at a large state university.'')"
    by (simp add: u_def)
  have e3: "\<not> is_section_header U (u ''She finished her education at a large state university.'')"
    by (simp add: is_section_header_def u_def)
  from iff e1 e2 long len mid e3 show ?thesis by blast
qed

theorem is_section_header_iff_witness:
  "is_section_header ascii_ucd (u ''SKILLS'') \<and> length (u ''SKILLS'') \<le> 50
   \<and> \<not> is_section_header ascii_ucd (u ''My education'')
   \<and> \<not> is_section_header ascii_ucd (replicate 55 101)"
proof -
  have a: "length (u ''SKILLS'') \<le> 50" by (simp add: u_def)
  have b: "strip (lower ascii_ucd (u ''SKILLS'')) = u ''skills''"
    by (simp add: lower_def strip_def u_def char_defs)
  have c: "strip (lower ascii_ucd (u ''My education'')) = u ''my education''"
    by (simp add: lower_def strip_def u_def char_defs)
  have d: "length (replicate 55 (101::nat)) = 55" by simp
  from is_section_header_iff [of ascii_ucd "u ''SKILLS''"] a b
  have 1: "is_section_header ascii_ucd (u ''SKILLS'')" by simp
  from is_section_header_iff [of ascii_ucd "u ''My education''"] c
  have 2: "\<not> is_section_header ascii_ucd (u ''My education'')"
    by (simp add: u_def)
  from is_section_header_iff [of ascii_ucd "replicate 55 101"] d
  have 3: "\<not> is_section_header ascii_ucd (replicate 55 101)" by blast
  from 1 a 2 3 show ?thesis by blast
qed

subsection \<open>The precondition of formatting\<close>

text \<open>
  C7. When the template path or the template type of the profile is missing or empty,
  the constructor raises a \<open>ValueError\<close>, \<open>format()\<close> is not run and the files are as
  they were. When both are non-empty strings, the constructor returns the formatter.
\<close>

theorem init_precondition:
  "(missing_or_empty ta (u ''template_path'') \<or> missing_or_empty ta (u ''template_type'') \<longrightarrow>
      is_value_error (intelligent_formatter_init rd ta out)
      \<and> fst (format_resume_intelligent fmt rd ta out w) = Inl (projl (intelligent_formatter_init rd ta out))
      \<and> snd (format_resume_intelligent fmt rd ta out w) = w)
   \<and> (map_of ta (u ''template_path'') = Some (PStr p) \<and> p \<noteq> []
        \<and> map_of ta (u ''template_type'') = Some (PStr ty) \<and> ty \<noteq> [] \<longrightarrow>
      intelligent_formatter_init rd ta out =
        Inr \<lparr>resume_data = rd, template_analysis = ta, output_path = out,
             template_path = PStr p, template_type = PStr ty\<rparr>)"
  by (auto simp: missing_or_empty_def is_value_error_def intelligent_formatter_init_def
      format_resume_intelligent_def dict_get_def Let_def)

theorem init_precondition_witness:
  "is_value_error (intelligent_formatter_init [] [(u ''template_type'', PStr (u ''docx''))] (u ''out.docx''))
   \<and> snd (format_resume_intelligent (\<lambda>f w. (True, Suc w)) []
            [(u ''template_type'', PStr (u ''docx''))] (u ''out.docx'') (0::nat)) = 0
   \<and> intelligent_formatter_init []
        [(u ''template_path'', PStr (u ''t.docx'')), (u ''template_type'', PStr (u ''docx''))]
        (u ''out.docx'') =
      Inr \<lparr>resume_data = [],
           template_analysis =
             [(u ''template_path'', PStr (u ''t.docx'')), (u ''template_type'', PStr (u ''docx''))],
           output_path = u ''out.docx'',
           template_path = PStr (u ''t.docx''), template_type = PStr (u ''docx'')\<rparr>"
proof -
  have m: "missing_or_empty [(u ''template_type'', PStr (u ''docx''))] (u ''template_path'')"
    by (simp add: missing_or_empty_def u_def)
  have p: "map_of [(u ''template_path'', PStr (u ''t.docx'')), (u ''template_type'', PStr (u ''docx''))]
             (u ''template_path'') = Some (PStr (u ''t.docx'')) \<and> u ''t.docx'' \<noteq> []
           \<and> map_of [(u ''template_path'', PStr (u ''t.docx'')), (u ''template_type'', PStr (u ''docx''))]
             (u ''template_type'') = Some (PStr (u ''docx'')) \<and> u ''docx'' \<noteq> []"
    by (simp add: u_def)
  note a = init_precondition [where ta = "[(u ''template_type'', PStr (u ''docx''))]" and rd = "[]"
      and out = "u ''out.docx''" and fmt = "\<lambda>f w. (True, Suc w)" and w = "0::nat",
      THEN conjunct1, THEN mp, OF disjI1, OF m]
  note b = init_precondition [where
      ta = "[(u ''template_path'', PStr (u ''t.docx'')), (u ''template_type'', PStr (u ''docx''))]"
      and p = "u ''t.docx''" and ty = "u ''docx''" and rd = "[]" and out = "u ''out.docx''",
      THEN conjunct2, THEN mp, OF p]
  from a [THEN conjunct1] a [THEN conjunct2, THEN conjunct2] b show ?thesis
    by (intro conjI)
qed

subsection \<open>The two cleaning functions\<close>

text \<open>
  C9. The extractor's \<open>_clean_years\<close> and the formatter's \<open>_clean_duration\<close> are
  claimed to give the same result on every text, both with the current calendar year
  for "present". In 2026 they differ on "2020 - Present": \<open>_clean_duration\<close> puts in
  2025.
\<close>

theorem clean_years_duration_differ:
  "clean_years ascii_ucd 2026 (u ''2020 - Present'') = u ''2020-2026''
   \<and> clean_duration ascii_ucd (u ''2020 - Present'') = u ''2020-2025''"
  by (simp add: clean_years_def clean_duration_def clean_defs re_defs rx_abbrevs char_defs u_def)

subsection \<open>The replacement map\<close>

lemma dict_set_fresh: "k \<notin> fst ` set r \<Longrightarrow> dict_set r k v = r @ [(k, v)]"
  by (induction r) auto

lemma foldl_dict_set:
  "distinct ks \<Longrightarrow> set ks \<inter> fst ` set r = {} \<Longrightarrow>
     foldl (\<lambda>r k. dict_set r k v) r ks = r @ map (\<lambda>k. (k, v)) ks"
proof (induction ks arbitrary: r)
  case Nil
  then show ?case by simp
next
  case (Cons k ks)
  from Cons.prems have fresh: "k \<notin> fst ` set r" by auto
  from Cons.prems have "set ks \<inter> fst ` set (r @ [(k, v)]) = {}" by auto
  with Cons.IH [of "r @ [(k, v)]"] Cons.prems fresh show ?case
    by (simp add: dict_set_fresh)
qed

lemma fst_field_entries: "fst ` set (field_entries rd f ts) \<subseteq> set ts"
  by (auto simp: field_entries_def)

lemma register_tokens_eq:
  "distinct ts \<Longrightarrow> set ts \<inter> fst ` set r = {} \<Longrightarrow>
     register_tokens rd f ts r = r @ field_entries rd f ts"
  by (simp add: register_tokens_def field_entries_def foldl_dict_set)

lemmas token_defs = name_tokens_def email_tokens_def phone_tokens_def address_tokens_def
  linkedin_tokens_def dob_tokens_def

lemma tokens_distinct:
  "distinct (name_tokens @ email_tokens @ phone_tokens @ address_tokens @ linkedin_tokens @ dob_tokens)"
  by (simp add: token_defs u_def)


lemma create_replacement_map_eq:
  "create_replacement_map rd =
     field_entries rd (u ''name'') name_tokens @ field_entries rd (u ''email'') email_tokens
     @ field_entries rd (u ''phone'') phone_tokens @ field_entries rd (u ''address'') address_tokens
     @ field_entries rd (u ''linkedin'') linkedin_tokens @ field_entries rd (u ''dob'') dob_tokens"
proof -
  let ?n = "field_entries rd (u ''name'') name_tokens"
  let ?e = "field_entries rd (u ''email'') email_tokens"
  let ?p = "field_entries rd (u ''phone'') phone_tokens"
  let ?a = "field_entries rd (u ''address'') address_tokens"
  let ?l = "field_entries rd (u ''linkedin'') linkedin_tokens"
  note d = tokens_distinct
  have fs: "fst ` set ?n \<subseteq> set name_tokens" "fst ` set ?e \<subseteq> set email_tokens"
    "fst ` set ?p \<subseteq> set phone_tokens" "fst ` set ?a \<subseteq> set address_tokens"
    "fst ` set ?l \<subseteq> set linkedin_tokens"
    by (rule fst_field_entries)+
  have 1: "register_tokens rd (u ''name'') name_tokens [] = ?n"
    using d by (subst register_tokens_eq) auto
  have 2: "register_tokens rd (u ''email'') email_tokens ?n = ?n @ ?e"
    using d fs by (subst register_tokens_eq) (auto simp: image_Un)
  have 3: "register_tokens rd (u ''phone'') phone_tokens (?n @ ?e) = ?n @ ?e @ ?p"
    using d fs by (subst register_tokens_eq) (auto simp: image_Un)
  have 4: "register_tokens rd (u ''address'') address_tokens (?n @ ?e @ ?p) = ?n @ ?e @ ?p @ ?a"
    using d fs by (subst register_tokens_eq) (auto simp: image_Un)
  have 5: "register_tokens rd (u ''linkedin'') linkedin_tokens (?n @ ?e @ ?p @ ?a)
             = ?n @ ?e @ ?p @ ?a @ ?l"
    using d fs by (subst register_tokens_eq) (auto simp: image_Un)
  have 6: "register_tokens rd (u ''dob'') dob_tokens (?n @ ?e @ ?p @ ?a @ ?l)
             = ?n @ ?e @ ?p @ ?a @ ?l @ field_entries rd (u ''dob'') dob_tokens"
    using d fs by (subst register_tokens_eq) (auto simp: image_Un)
  show ?thesis
    unfolding create_replacement_map_def 1 2 3 4 5 6 ..
qed

lemma keys_field_entries:
  "fst ` set (field_entries rd f ts) = (if truthy (dict_get rd f) then set ts else {})"
  by (auto simp: field_entries_def image_iff)

lemma replacement_keys:
  "fst ` set (create_replacement_map rd) =
     (if truthy (dict_get rd (u ''name'')) then set name_tokens else {})
     \<union> (if truthy (dict_get rd (u ''email'')) then set email_tokens else {})
     \<union> (if truthy (dict_get rd (u ''phone'')) then set phone_tokens else {})
     \<union> (if truthy (dict_get rd (u ''address'')) then set address_tokens else {})
     \<union> (if truthy (dict_get rd (u ''linkedin'')) then set linkedin_tokens else {})
     \<union> (if truthy (dict_get rd (u ''dob'')) then set dob_tokens else {})"
  unfolding create_replacement_map_eq set_append image_Un keys_field_entries
  by (simp only: Un_assoc)

lemma replace_tokens_absent:
  "\<forall>k \<in> fst ` set m. \<not> text_contains (tables_of L) (para_text p) k \<Longrightarrow>
     replace_tokens L m p = Inr (p, 0)"
  by (induction m) auto

lemma replace_tokens_append:
  "replace_tokens L (m1 @ m2) p =
     ebind (replace_tokens L m1 p)
       (\<lambda>(p', n). ebind (replace_tokens L m2 p') (\<lambda>(p'', k). Inr (p'', n + k)))"
proof (induction m1 arbitrary: p)
  case Nil
  then show ?case by (auto simp: ebind_def split: sum.splits)
next
  case (Cons a m1)
  obtain key val where a: "a = (key, val)" by (cases a)
  show ?case
    by (auto simp: a Cons.IH ebind_def split: sum.splits prod.splits)
qed


lemmas fmt_defs = text_contains_def lower_def para_text_def sub_escaped_def replace_in_paragraph_def
  ebind_def

lemma email_step:
  "replace_tokens L (map (\<lambda>k. (k, PStr (u ''a@b.com''))) email_tokens)
     [u ''Contact: [EMAIL] or [PHONE]''] = Inr ([u ''Contact: a@b.com or [PHONE]''], 1)"
  by (simp add: email_tokens_def fmt_defs re_defs rx_abbrevs char_defs u_def)

lemma absent_before:
  "\<forall>k \<in> set name_tokens. \<not> text_contains U (para_text [u ''Contact: [EMAIL] or [PHONE]'']) k"
  by (simp add: token_defs fmt_defs char_defs u_def)

lemma absent_after:
  "\<forall>k \<in> set (address_tokens @ linkedin_tokens @ dob_tokens).
     \<not> text_contains U (para_text [u ''Contact: a@b.com or [PHONE]'']) k"
  by (simp add: token_defs fmt_defs char_defs u_def)


lemma email_step_split:
  "replace_tokens L (map (\<lambda>k. (k, PStr (u ''a@b.com''))) email_tokens)
     [u ''Contact: [EM'', u ''AIL] or [PHONE]''] = Inr ([u ''Contact: a@b.com or [PHONE]'', []], 1)"
  by (simp add: email_tokens_def fmt_defs re_defs rx_abbrevs char_defs u_def)

lemma absent_before_split:
  "\<forall>k \<in> set name_tokens.
     \<not> text_contains U (para_text [u ''Contact: [EM'', u ''AIL] or [PHONE]'']) k"
  by (simp add: token_defs fmt_defs char_defs u_def)

lemma absent_after_split:
  "\<forall>k \<in> set (address_tokens @ linkedin_tokens @ dob_tokens).
     \<not> text_contains U (para_text [u ''Contact: a@b.com or [PHONE]'', []]) k"
  by (simp add: token_defs fmt_defs char_defs u_def)

subsection \<open>Literal placeholders\<close>

text \<open>
  C3. For a record with email "a@b.com" and an empty phone, whatever its other fields,
  the replacement loop over the paragraph "Contact: [EMAIL] or [PHONE]" replaces
  \<open>[EMAIL]\<close> by the address and leaves the rest of the text, \<open>[PHONE]\<close> included, as
  it is: the paragraph reads "Contact: a@b.com or [PHONE]". This holds when the text is
  one run and when \<open>[EMAIL]\<close> straddles two runs; \<open>[PHONE]\<close> is not a key of the map.
\<close>

theorem literal_replacement_keeps_phone_token:
  "dict_get rd (u ''email'') = PStr (u ''a@b.com'') \<and> dict_get rd (u ''phone'') = PStr [] \<longrightarrow>
     replace_tokens L (create_replacement_map rd) [u ''Contact: [EMAIL] or [PHONE]'']
       = Inr ([u ''Contact: a@b.com or [PHONE]''], 1)
     \<and> replace_tokens L (create_replacement_map rd) [u ''Contact: [EM'', u ''AIL] or [PHONE]'']
       = Inr ([u ''Contact: a@b.com or [PHONE]'', []], 1)
     \<and> map_of (create_replacement_map rd) (u ''[PHONE]'') = None"
proof (intro impI conjI)
  assume h: "dict_get rd (u ''email'') = PStr (u ''a@b.com'') \<and> dict_get rd (u ''phone'') = PStr []"
  let ?p0 = "[u ''Contact: [EMAIL] or [PHONE]'']"
  let ?p1 = "[u ''Contact: a@b.com or [PHONE]'']"
  let ?q0 = "[u ''Contact: [EM'', u ''AIL] or [PHONE]'']"
  let ?q1 = "[u ''Contact: a@b.com or [PHONE]'', []]"
  let ?n = "field_entries rd (u ''name'') name_tokens"
  define em where "em = map (\<lambda>k. (k, PStr (u ''a@b.com''))) email_tokens"
  define rest where "rest = field_entries rd (u ''address'') address_tokens
     @ field_entries rd (u ''linkedin'') linkedin_tokens @ field_entries rd (u ''dob'') dob_tokens"
  have e: "field_entries rd (u ''email'') email_tokens = em"
    using h by (simp add: field_entries_def u_def em_def)
  have p: "field_entries rd (u ''phone'') phone_tokens = []"
    using h by (simp add: field_entries_def)
  have kn: "fst ` set ?n \<subseteq> set name_tokens"
    by (rule fst_field_entries)
  have kr: "fst ` set rest \<subseteq> set (address_tokens @ linkedin_tokens @ dob_tokens)"
    unfolding rest_def set_append image_Un
    by (intro Un_mono fst_field_entries)
  have m: "create_replacement_map rd = ?n @ (em @ rest)"
    by (simp add: create_replacement_map_eq e p rest_def)
  have n: "replace_tokens L ?n ?p0 = Inr (?p0, 0)"
    using absent_before [of "tables_of L"] kn
    by (intro replace_tokens_absent) blast
  have s: "replace_tokens L em ?p0 = Inr (?p1, 1)"
    unfolding em_def by (rule email_step)
  have r: "replace_tokens L rest ?p1 = Inr (?p1, 0)"
    using absent_after [of "tables_of L"] kr
    by (intro replace_tokens_absent) blast
  have a: "replace_tokens L (em @ rest) ?p0 = Inr (?p1, 1)"
    by (simp only: replace_tokens_append s r ebind_def sum.case prod.case add_0_right)
  show "replace_tokens L (create_replacement_map rd) ?p0 = Inr (?p1, 1)"
    by (simp only: m replace_tokens_append [of L ?n] n a ebind_def sum.case prod.case add_0)
  have n': "replace_tokens L ?n ?q0 = Inr (?q0, 0)"
    using absent_before_split [of "tables_of L"] kn
    by (intro replace_tokens_absent) blast
  have s': "replace_tokens L em ?q0 = Inr (?q1, 1)"
    unfolding em_def by (rule email_step_split)
  have r': "replace_tokens L rest ?q1 = Inr (?q1, 0)"
    using absent_after_split [of "tables_of L"] kr
    by (intro replace_tokens_absent) blast
  have a': "replace_tokens L (em @ rest) ?q0 = Inr (?q1, 1)"
    by (simp only: replace_tokens_append s' r' ebind_def sum.case prod.case add_0_right)
  show "replace_tokens L (create_replacement_map rd) ?q0 = Inr (?q1, 1)"
    by (simp only: m replace_tokens_append [of L ?n] n' a' ebind_def sum.case prod.case add_0)
  have "u ''[PHONE]'' \<notin> fst ` set (create_replacement_map rd)"
    unfolding replacement_keys using h by (simp add: token_defs u_def)
  then show "map_of (create_replacement_map rd) (u ''[PHONE]'') = None"
    by (simp add: map_of_eq_None_iff)
qed

theorem literal_replacement_keeps_phone_token_witness:
  "replace_tokens sample_lib
     (create_replacement_map
        [(u ''name'', PStr (u ''Jane Doe'')), (u ''email'', PStr (u ''a@b.com'')),
         (u ''phone'', PStr [])])
     [u ''Contact: [EMAIL] or [PHONE]''] = Inr ([u ''Contact: a@b.com or [PHONE]''], 1)"
proof -
  have h: "dict_get [(u ''name'', PStr (u ''Jane Doe'')), (u ''email'', PStr (u ''a@b.com'')),
         (u ''phone'', PStr [])] (u ''email'') = PStr (u ''a@b.com'')
     \<and> dict_get [(u ''name'', PStr (u ''Jane Doe'')), (u ''email'', PStr (u ''a@b.com'')),
         (u ''phone'', PStr [])] (u ''phone'') = PStr []"
    by (simp add: dict_get_def u_def)
  show ?thesis
    by (rule literal_replacement_keeps_phone_token [where L = sample_lib, THEN mp, OF h,
          THEN conjunct1])
qed

subsection \<open>The skills table\<close>

lemmas cell_defs = header_texts_def text_cell_def cell_text_def para_text_def lower_def strip_def

lemma header_skill_years:
  "header_texts U \<lparr>rows = [text_cell (u ''Skill''), text_cell (u ''Years'')] # rs, ncols = n\<rparr>
     = [u ''skill'', u ''years'']"
  by (simp add: cell_defs char_defs u_def)

lemma header_skill_notes:
  "header_texts U \<lparr>rows = [text_cell (u ''Skill''), text_cell (u ''Notes'')] # rs, ncols = n\<rparr>
     = [u ''skill'', u ''notes'']"
  by (simp add: cell_defs char_defs u_def)

lemma is_skills_table_unfold:
  "is_skills_table U t \<longleftrightarrow>
     2 \<le> length (rows t)
     \<and> (\<exists>h \<in> set (header_texts U t). \<exists>kw \<in> set skills_keywords. str_in kw h)
     \<and> ((\<exists>h \<in> set (header_texts U t). \<exists>kw \<in> set years_keywords. str_in kw h)
        \<or> (\<exists>h \<in> set (header_texts U t). \<exists>kw \<in> set last_used_keywords. str_in kw h))"
  by (auto simp: is_skills_table_def any_keyword_def list_ex_iff Let_def)

text \<open>
  C6, as stated: a table is a skills table exactly when its first row has a cell with a
  skill keyword and a cell with a years or last-used keyword. A table that is only the
  header row Skill, Years has both and is not a skills table.
\<close>

theorem header_only_table_counterexample:
  "header_texts ascii_ucd \<lparr>rows = [[text_cell (u ''Skill''), text_cell (u ''Years'')]], ncols = 2\<rparr>
     = [u ''skill'', u ''years'']
   \<and> str_in (u ''skill'') (u ''skill'') \<and> u ''skill'' \<in> set skills_keywords
   \<and> str_in (u ''years'') (u ''years'') \<and> u ''years'' \<in> set years_keywords
   \<and> \<not> is_skills_table ascii_ucd
         \<lparr>rows = [[text_cell (u ''Skill''), text_cell (u ''Years'')]], ncols = 2\<rparr>"
proof (intro conjI)
  show "header_texts ascii_ucd
      \<lparr>rows = [[text_cell (u ''Skill''), text_cell (u ''Years'')]], ncols = 2\<rparr>
     = [u ''skill'', u ''years'']"
    by (rule header_skill_years)
  show "str_in (u ''skill'') (u ''skill'')" and "str_in (u ''years'') (u ''years'')"
    by (simp_all add: u_def)
  show "u ''skill'' \<in> set skills_keywords" and "u ''years'' \<in> set years_keywords"
    by (simp_all add: skills_keywords_def years_keywords_def)
  show "\<not> is_skills_table ascii_ucd
         \<lparr>rows = [[text_cell (u ''Skill''), text_cell (u ''Years'')]], ncols = 2\<rparr>"
    by (simp add: is_skills_table_def)
qed

text \<open>
  C6, amended: a table is a skills table exactly when it has at least two rows and its
  first row has a cell whose stripped, lower-cased text contains one of skill, skills,
  technology, competency, and a cell whose text contains one of years, experience,
  years used, years of experience, last used, last, recent, most recent. With a row
  under the header, the header Skill, Years makes a skills table; the header Skill,
  Notes never does.
\<close>

theorem is_skills_table_iff:
  "(is_skills_table U t \<longleftrightarrow>
      2 \<le> length (rows t)
      \<and> (\<exists>h \<in> set (header_texts U t).
            \<exists>kw \<in> {u ''skill'', u ''skills'', u ''technology'', u ''competency''}. str_in kw h)
      \<and> (\<exists>h \<in> set (header_texts U t).
            \<exists>kw \<in> {u ''years'', u ''experience'', u ''years used'', u ''years of experience'',
                    u ''last used'', u ''last'', u ''recent'', u ''most recent''}. str_in kw h))
   \<and> is_skills_table U
       \<lparr>rows = [text_cell (u ''Skill''), text_cell (u ''Years'')] # r # rs, ncols = n\<rparr>
   \<and> \<not> is_skills_table U
       \<lparr>rows = [text_cell (u ''Skill''), text_cell (u ''Notes'')] # rs, ncols = n\<rparr>"
proof (intro conjI)
  show "is_skills_table U t \<longleftrightarrow>
      2 \<le> length (rows t)
      \<and> (\<exists>h \<in> set (header_texts U t).
            \<exists>kw \<in> {u ''skill'', u ''skills'', u ''technology'', u ''competency''}. str_in kw h)
      \<and> (\<exists>h \<in> set (header_texts U t).
            \<exists>kw \<in> {u ''years'', u ''experience'', u ''years used'', u ''years of experience'',
                    u ''last used'', u ''last'', u ''recent'', u ''most recent''}. str_in kw h)"
    unfolding is_skills_table_unfold skills_keywords_def years_keywords_def
      last_used_keywords_def
    by (simp only: list.set) blast
  show "is_skills_table U
       \<lparr>rows = [text_cell (u ''Skill''), text_cell (u ''Years'')] # r # rs, ncols = n\<rparr>"
    unfolding is_skills_table_unfold header_skill_years
    by (simp add: skills_keywords_def years_keywords_def u_def)
  show "\<not> is_skills_table U
       \<lparr>rows = [text_cell (u ''Skill''), text_cell (u ''Notes'')] # rs, ncols = n\<rparr>"
    unfolding is_skills_table_unfold header_skill_notes
    by (simp add: skills_keywords_def years_keywords_def last_used_keywords_def u_def)
qed

theorem is_skills_table_iff_witness:
  "is_skills_table ascii_ucd
     \<lparr>rows = [[text_cell (u ''Skill''), text_cell (u ''Years'')],
              [text_cell (u ''Python''), text_cell (u ''3'')]], ncols = 2\<rparr>
   \<and> \<not> is_skills_table ascii_ucd
     \<lparr>rows = [[text_cell (u ''Skill''), text_cell (u ''Notes'')],
              [text_cell (u ''Python''), text_cell (u ''3'')]], ncols = 2\<rparr>"
  using is_skills_table_iff [where U = ascii_ucd and n = 2
      and r = "[text_cell (u ''Python''), text_cell (u ''3'')]" and rs = "[]", THEN conjunct2,
      THEN conjunct1]
    is_skills_table_iff [where U = ascii_ucd and n = 2
      and rs = "[[text_cell (u ''Python''), text_cell (u ''3'')]]", THEN conjunct2,
      THEN conjunct2]
  by (intro conjI)

lemma map_counting_length:
  "map_counting f xs = Inr (ys, n) \<Longrightarrow> length ys = length xs"
  by (induction xs arbitrary: ys n) (auto simp: ebind_def split: sum.splits prod.splits)

text \<open>
  C10. A table with fewer than two rows is not a skills table, whatever its header
  says; filling it returns 0 and leaves it as it is; and the loop over the tables only
  replaces tokens in its cells, so it keeps its rows: no skill row is inserted.
\<close>

theorem short_table_never_filled:
  "length (rows t) < 2 \<longrightarrow>
     \<not> is_skills_table (tables_of L) t
     \<and> fill_skills_table L rd t = Inr (0, t)
     \<and> format_table L rd m t =
         ebind (map_counting (map_counting (map_counting (replace_tokens L m))) (rows t))
           (\<lambda>(rows', n). Inr (t\<lparr>rows := rows'\<rparr>, n))
     \<and> (\<forall>t' n. format_table L rd m t = Inr (t', n) \<longrightarrow>
           length (rows t') = length (rows t) \<and> ncols t' = ncols t)"
proof (intro impI conjI allI)
  assume short: "length (rows t) < 2"
  show no: "\<not> is_skills_table (tables_of L) t"
    using short by (simp add: is_skills_table_def)
  show "fill_skills_table L rd t = Inr (0, t)"
    using short by (simp add: fill_skills_table_def)
  show eq: "format_table L rd m t =
         ebind (map_counting (map_counting (map_counting (replace_tokens L m))) (rows t))
           (\<lambda>(rows', n). Inr (t\<lparr>rows := rows'\<rparr>, n))"
    using no by (simp add: format_table_def)
  fix t' n
  assume "format_table L rd m t = Inr (t', n)"
  with eq obtain rows' where
    r: "map_counting (map_counting (map_counting (replace_tokens L m))) (rows t) = Inr (rows', n)"
    and t': "t' = t\<lparr>rows := rows'\<rparr>"
    by (auto simp: ebind_def split: sum.splits prod.splits)
  from map_counting_length [OF r] t'
  show "length (rows t') = length (rows t)" and "ncols t' = ncols t"
    by simp_all
qed

theorem short_table_never_filled_witness:
  "\<not> is_skills_table (tables_of sample_lib)
       \<lparr>rows = [[text_cell (u ''Skill''), text_cell (u ''Years'')]], ncols = 2\<rparr>
   \<and> fill_skills_table sample_lib [(u ''skills'', PList [PStr (u ''Python'')])]
       \<lparr>rows = [[text_cell (u ''Skill''), text_cell (u ''Years'')]], ncols = 2\<rparr>
     = Inr (0, \<lparr>rows = [[text_cell (u ''Skill''), text_cell (u ''Years'')]], ncols = 2\<rparr>)"
proof -
  have short: "length (rows \<lparr>rows = [[text_cell (u ''Skill''), text_cell (u ''Years'')]],
      ncols = 2\<rparr>) < 2"
    by simp
  note w = short_table_never_filled [where L = sample_lib
      and rd = "[(u ''skills'', PList [PStr (u ''Python'')])]" and m = "[]", THEN mp, OF short]
  from w [THEN conjunct1] w [THEN conjunct2, THEN conjunct1] show ?thesis
    by (intro conjI)
qed

end
